theory Spec2Isabelle
  imports Complex_Main
begin

section \<open>Values, exceptions and the persisted document\<close>

text \<open>
  The application keeps one JSON document on disk (\<^verbatim>\<open>data/database.json\<close>) and a set of
  wrapper classes around external libraries.  The embedding follows the Python source:
  a dict is a partial map, a list is a list, an exception that leaves a method is the
  left summand of the result, and the file on disk is a component of an explicit store.

  JSON numbers (Python \<^verbatim>\<open>int\<close> and \<^verbatim>\<open>float\<close>, which compare equal across the two types)
  are one constructor over the rationals; sums of durations are therefore the exact sums,
  where Python adds IEEE doubles.
\<close>

datatype exn =
    KeyError
  | TypeError
  | LookupError
  | FileNotFoundError
  | ValueError
  | RuntimeError
  | OSError
  | ImportError
  | AssertionError
  | LibraryError

datatype jvalue =
    JNull
  | JNum rat
  | JStr string
  | JArr "jvalue list"
  | JObj "(string \<times> jvalue) list"

type_synonym dict = "string \<rightharpoonup> jvalue"

record database =
  lectures :: "dict list"
  settings :: dict
  analytics :: "string \<rightharpoonup> rat"
  quiz_results :: "dict list option"

text \<open>
  The file is missing, present but not loadable as JSON, or holds a document.  The disk
  either accepts a write, refuses to open the file for writing (the file keeps its
  content), or fails after \<^verbatim>\<open>open(..., 'w')\<close> has truncated the file (the file is left
  unloadable).  \<open>saves\<close> records every document handed to \<^verbatim>\<open>save_database\<close>, most recent
  first.
\<close>

datatype file_state = Missing | Unreadable | Doc database

datatype disk = Writable | OpenFails | WriteFails

record store =
  db_path :: file_state
  disk :: disk
  saves :: "database list"

section \<open>StateManager\<close>

definition initial_settings :: dict where
  "initial_settings =
     [''whisper_model'' \<mapsto> JStr ''base'',
      ''summary_length'' \<mapsto> JStr ''medium'',
      ''quiz_difficulty'' \<mapsto> JStr ''medium'',
      ''language'' \<mapsto> JStr ''en'']"

definition initial_analytics :: "string \<rightharpoonup> rat" where
  "initial_analytics =
     [''total_lectures'' \<mapsto> 0, ''total_duration'' \<mapsto> 0, ''total_quizzes'' \<mapsto> 0]"

definition initial_data :: database where
  "initial_data =
     \<lparr>lectures = [], settings = initial_settings, analytics = initial_analytics,
      quiz_results = None\<rparr>"

definition load_database :: "store \<Rightarrow> database option" where
  "load_database s = (case db_path s of Doc d \<Rightarrow> Some d | _ \<Rightarrow> None)"

definition save_database :: "database \<Rightarrow> store \<Rightarrow> bool \<times> store" where
  "save_database d s =
     (case disk s of
        Writable \<Rightarrow> (True, s\<lparr>db_path := Doc d, saves := d # saves s\<rparr>)
      | OpenFails \<Rightarrow> (False, s\<lparr>saves := d # saves s\<rparr>)
      | WriteFails \<Rightarrow> (False, s\<lparr>db_path := Unreadable, saves := d # saves s\<rparr>))"

definition ensure_database :: "store \<Rightarrow> store" where
  "ensure_database s =
     (case db_path s of Missing \<Rightarrow> snd (save_database initial_data s) | _ \<Rightarrow> s)"

text \<open>
  \<^verbatim>\<open>add_lecture\<close>: the id is \<^verbatim>\<open>len(db['lectures']) + 1\<close>; \<open>now\<close> is the string
  \<^verbatim>\<open>datetime.now().isoformat()\<close>.  The two subscript operations on the analytics dict raise
  \<^verbatim>\<open>KeyError\<close> on an absent key and the addition raises \<^verbatim>\<open>TypeError\<close> on a duration that is
  not a number; both leave the method before anything is written.
\<close>

definition add_lecture :: "string \<Rightarrow> dict \<Rightarrow> store \<Rightarrow> (exn + int option) \<times> store" where
  "add_lecture now lecture_data s =
     (case load_database s of
        None \<Rightarrow> (Inr None, s)
      | Some db \<Rightarrow>
          let new_id = int (length (lectures db)) + 1;
              lecture = lecture_data(''id'' \<mapsto> JNum (of_int new_id), ''created_at'' \<mapsto> JStr now);
              db1 = db\<lparr>lectures := lectures db @ [lecture]\<rparr>
          in (case analytics db1 ''total_lectures'' of
                None \<Rightarrow> (Inl KeyError, s)
              | Some n_lectures \<Rightarrow>
                  let db2 = db1\<lparr>analytics := (analytics db1)(''total_lectures'' \<mapsto> n_lectures + 1)\<rparr>;
                      finish = (\<lambda>d. case save_database d s of
                                       (True, s') \<Rightarrow> (Inr (Some new_id), s')
                                     | (False, s') \<Rightarrow> (Inr None, s'))
                  in (case lecture ''duration'' of
                        None \<Rightarrow> finish db2
                      | Some v \<Rightarrow>
                          (case analytics db2 ''total_duration'' of
                             None \<Rightarrow> (Inl KeyError, s)
                           | Some duration_sum \<Rightarrow>
                               (case v of
                                  JNum d \<Rightarrow>
                                    finish (db2\<lparr>analytics :=
                                              (analytics db2)(''total_duration'' \<mapsto> duration_sum + d)\<rparr>)
                                | _ \<Rightarrow> (Inl TypeError, s))))))"

text \<open>
  \<^verbatim>\<open>update_lecture\<close> walks the list, merges \<open>updates\<close> into the first lecture whose id
  equals \<open>lecture_id\<close> and saves; when no lecture matches it returns False without saving.
\<close>

fun update_first :: "jvalue \<Rightarrow> dict \<Rightarrow> dict list \<Rightarrow> exn + dict list option" where
  "update_first lecture_id updates [] = Inr None"
| "update_first lecture_id updates (l # ls) =
     (case l ''id'' of
        None \<Rightarrow> Inl KeyError
      | Some v \<Rightarrow>
          if v = lecture_id then Inr (Some ((l ++ updates) # ls))
          else (case update_first lecture_id updates ls of
                  Inl e \<Rightarrow> Inl e
                | Inr None \<Rightarrow> Inr None
                | Inr (Some ls') \<Rightarrow> Inr (Some (l # ls'))))"

definition update_lecture :: "jvalue \<Rightarrow> dict \<Rightarrow> store \<Rightarrow> (exn + bool) \<times> store" where
  "update_lecture lecture_id updates s =
     (case load_database s of
        None \<Rightarrow> (Inr False, s)
      | Some db \<Rightarrow>
          (case update_first lecture_id updates (lectures db) of
             Inl e \<Rightarrow> (Inl e, s)
           | Inr None \<Rightarrow> (Inr False, s)
           | Inr (Some ls) \<Rightarrow>
               (case save_database (db\<lparr>lectures := ls\<rparr>) s of (ok, s') \<Rightarrow> (Inr ok, s'))))"

definition delete_lecture :: "jvalue \<Rightarrow> store \<Rightarrow> (exn + bool) \<times> store" where
  "delete_lecture lecture_id s =
     (case load_database s of
        None \<Rightarrow> (Inr False, s)
      | Some db \<Rightarrow>
          if list_ex (\<lambda>l. l ''id'' = None) (lectures db) then (Inl KeyError, s)
          else (case save_database
                       (db\<lparr>lectures := filter (\<lambda>l. l ''id'' \<noteq> Some lecture_id) (lectures db)\<rparr>) s
                of (ok, s') \<Rightarrow> (Inr ok, s')))"

definition update_settings :: "dict \<Rightarrow> store \<Rightarrow> bool \<times> store" where
  "update_settings new_settings s =
     (case load_database s of
        None \<Rightarrow> (False, s)
      | Some db \<Rightarrow> save_database (db\<lparr>settings := settings db ++ new_settings\<rparr>) s)"

definition increment_quiz_count :: "store \<Rightarrow> bool \<times> store" where
  "increment_quiz_count s =
     (case load_database s of
        None \<Rightarrow> (False, s)
      | Some db \<Rightarrow>
          save_database
            (db\<lparr>analytics := (analytics db)(''total_quizzes'' \<mapsto>
                    (case analytics db ''total_quizzes'' of None \<Rightarrow> 0 | Some q \<Rightarrow> q) + 1)\<rparr>) s)"

definition add_quiz_result :: "string \<Rightarrow> dict \<Rightarrow> store \<Rightarrow> bool \<times> store" where
  "add_quiz_result now quiz_result s =
     (case load_database s of
        None \<Rightarrow> (False, s)
      | Some db \<Rightarrow>
          let old_results = (case quiz_results db of None \<Rightarrow> [] | Some rs \<Rightarrow> rs);
              db1 = db\<lparr>quiz_results := Some (old_results @ [quiz_result(''taken_at'' \<mapsto> JStr now)])\<rparr>
          in save_database
               (db1\<lparr>analytics := (analytics db1)(''total_quizzes'' \<mapsto>
                       (case analytics db1 ''total_quizzes'' of None \<Rightarrow> 0 | Some q \<Rightarrow> q) + 1)\<rparr>) s)"


text \<open>
  A session of the three lecture operations, run in order on a store.  An operation that
  raises leaves the store as it was.
\<close>

datatype lecture_op =
    AddLecture string dict
  | UpdateLecture jvalue dict
  | DeleteLecture jvalue

fun apply_op :: "lecture_op \<Rightarrow> store \<Rightarrow> store" where
  "apply_op (AddLecture now lecture_data) s = snd (add_lecture now lecture_data s)"
| "apply_op (UpdateLecture lecture_id updates) s = snd (update_lecture lecture_id updates s)"
| "apply_op (DeleteLecture lecture_id) s = snd (delete_lecture lecture_id s)"

fun run_ops :: "lecture_op list \<Rightarrow> store \<Rightarrow> store" where
  "run_ops [] s = s"
| "run_ops (operation # rest) s = run_ops rest (apply_op operation s)"

definition fresh_store :: store where
  "fresh_store = ensure_database \<lparr>db_path = Missing, disk = Writable, saves = []\<rparr>"

definition lecture_ids :: "store \<Rightarrow> jvalue option list" where
  "lecture_ids s = (case db_path s of Doc d \<Rightarrow> map (\<lambda>l. l ''id'') (lectures d) | _ \<Rightarrow> [])"

text \<open>
  Observers used to state the properties: the value of an analytics counter in the
  persisted document, and how many documents an operation handed to \<^verbatim>\<open>save_database\<close>.
\<close>

definition counter :: "store \<Rightarrow> string \<Rightarrow> rat option" where
  "counter s k = (case db_path s of Doc d \<Rightarrow> analytics d k | _ \<Rightarrow> None)"




definition one_lecture_store :: store where
  "one_lecture_store =
     run_ops [AddLecture ''2024-01-01T09:00:00'' [''duration'' \<mapsto> JNum 90]] fresh_store"

section \<open>Python strings\<close>

text \<open>
  Strings are lists of 8-bit characters and the string methods the source calls are
  written out for ASCII text: \<^verbatim>\<open>str.isspace\<close>, \<^verbatim>\<open>str.isupper\<close>, \<^verbatim>\<open>str.lower\<close>
  and the others treat a character above 127 as neither white space, nor a letter, nor a
  digit (Python decides those by the Unicode tables).
\<close>

definition is_space :: "char \<Rightarrow> bool" where
  "is_space c \<longleftrightarrow>
     (let n = (of_char c :: nat) in n = 32 \<or> (9 \<le> n \<and> n \<le> 13) \<or> (28 \<le> n \<and> n \<le> 31))"

definition is_upper :: "char \<Rightarrow> bool" where
  "is_upper c \<longleftrightarrow> (let n = (of_char c :: nat) in 65 \<le> n \<and> n \<le> 90)"

definition is_lower :: "char \<Rightarrow> bool" where
  "is_lower c \<longleftrightarrow> (let n = (of_char c :: nat) in 97 \<le> n \<and> n \<le> 122)"

definition is_digit :: "char \<Rightarrow> bool" where
  "is_digit c \<longleftrightarrow> (let n = (of_char c :: nat) in 48 \<le> n \<and> n \<le> 57)"

text \<open>An upper-case ASCII letter becomes lower case by adding 32, that is by setting bit 5.\<close>

fun lower_char :: "char \<Rightarrow> char" where
  "lower_char (Char b0 b1 b2 b3 b4 b5 b6 b7) =
     (if is_upper (Char b0 b1 b2 b3 b4 b5 b6 b7) then Char b0 b1 b2 b3 b4 True b6 b7
      else Char b0 b1 b2 b3 b4 b5 b6 b7)"

definition py_lower :: "string \<Rightarrow> string" where
  "py_lower s = map lower_char s"

text \<open>\<^verbatim>\<open>s.strip()\<close> and \<^verbatim>\<open>s.strip(chars)\<close>.\<close>

definition strip_where :: "(char \<Rightarrow> bool) \<Rightarrow> string \<Rightarrow> string" where
  "strip_where p s = rev (dropWhile p (rev (dropWhile p s)))"

definition py_strip :: "string \<Rightarrow> string" where
  "py_strip s = strip_where is_space s"


text \<open>
  \<^verbatim>\<open>s.split()\<close> (runs of white space separate the words), \<^verbatim>\<open>sep.join(xs)\<close>,
  \<^verbatim>\<open>s.isalnum()\<close> and the slice \<^verbatim>\<open>xs[:k]\<close>, where a negative \<open>k\<close> counts from the end.
\<close>

fun split_ws :: "string \<Rightarrow> string \<Rightarrow> string list" where
  "split_ws cur [] = (if cur = [] then [] else [rev cur])"
| "split_ws cur (c # cs) =
     (if is_space c then (if cur = [] then split_ws [] cs else rev cur # split_ws [] cs)
      else split_ws (c # cur) cs)"

definition py_split :: "string \<Rightarrow> string list" where
  "py_split s = split_ws [] s"

fun py_join :: "string \<Rightarrow> string list \<Rightarrow> string" where
  "py_join sep [] = []"
| "py_join sep [x] = x"
| "py_join sep (x # y # ys) = x @ sep @ py_join sep (y # ys)"

definition py_isalnum :: "string \<Rightarrow> bool" where
  "py_isalnum s \<longleftrightarrow> s \<noteq> [] \<and> list_all (\<lambda>c. is_upper c \<or> is_lower c \<or> is_digit c) s"

definition py_slice_to :: "int \<Rightarrow> 'a list \<Rightarrow> 'a list" where
  "py_slice_to k xs = (if 0 \<le> k then take (nat k) xs else take (length xs - nat (- k)) xs)"

section \<open>QuizGenerator: questions and grading\<close>











section \<open>Summarizer\<close>

text \<open>
  The NLTK functions the source calls are parameters: the tokenizers and the stop word
  list are whatever the installed library returns, and each call can raise (NLTK raises
  \<^verbatim>\<open>LookupError\<close> when its data is missing).  A loaded summarization pipeline maps a text
  and the two length bounds to \<^verbatim>\<open>result[0]['summary_text']\<close> or raises; \<open>hf_pipeline\<close>
  stands for importing \<^verbatim>\<open>transformers\<close> and building the pipeline for a model name.
\<close>

record nltk =
  sent_tokenize :: "string \<Rightarrow> exn + string list"
  word_tokenize :: "string \<Rightarrow> exn + string list"
  stopwords_english :: "exn + string list"



record summary_result =
  summary :: string
  method_name :: string
  model :: "string option"
  original_length :: nat
  summary_length :: nat
  num_points :: "nat option"






text \<open>
  \<^verbatim>\<open>_extractive_summarize\<close>.  \<open>counted\<close> are the tokens of the lower-cased text that are
  alphanumeric and no stop words; the frequency of a word is its count divided by the
  largest count, and 0 for a word that was not counted.  Scores are exact rationals
  (Python computes them in doubles).
\<close>

definition max_freq :: "string list \<Rightarrow> nat" where
  "max_freq counted = fold max (map (count_list counted) counted) 0"

definition word_frequency :: "string list \<Rightarrow> string \<Rightarrow> rat" where
  "word_frequency counted w =
     (if count_list counted w = 0 then 0
      else of_nat (count_list counted w) / of_nat (max_freq counted))"

definition sentence_score :: "(string \<Rightarrow> rat) \<Rightarrow> nat \<Rightarrow> nat \<Rightarrow> string list \<Rightarrow> rat" where
  "sentence_score freq n i words =
     (let base = sum_list (map freq (filter py_isalnum words));
          placed = (if i = 0 then base * (3 / 2)
                    else if i = n - 1 then base * (6 / 5) else base);
          word_count = length words
      in if 10 \<le> word_count \<and> word_count \<le> 30 then placed * (6 / 5)
         else if word_count < 5 then placed * (1 / 2) else placed)"

fun score_sentences ::
  "nltk \<Rightarrow> (string \<Rightarrow> rat) \<Rightarrow> nat \<Rightarrow> nat \<Rightarrow> string list \<Rightarrow> exn + rat list" where
  "score_sentences lib freq n i [] = Inr []"
| "score_sentences lib freq n i (sentence # rest) =
     (case word_tokenize lib (py_lower sentence) of
        Inl e \<Rightarrow> Inl e
      | Inr words \<Rightarrow>
          (case score_sentences lib freq n (i + 1) rest of
             Inl e \<Rightarrow> Inl e
           | Inr scores \<Rightarrow> Inr (sentence_score freq n i words # scores)))"

text \<open>
  \<^verbatim>\<open>sorted(keys, key=score, reverse=True)[:num_sentences]\<close> followed by \<^verbatim>\<open>sort()\<close>:
  Python's sort is stable, also with \<^verbatim>\<open>reverse=True\<close>, as is \<open>sort_key\<close>.
\<close>

definition top_indices :: "rat list \<Rightarrow> nat \<Rightarrow> nat list" where
  "top_indices scores num_sentences =
     sort (take num_sentences (sort_key (\<lambda>i. - (scores ! i)) [0..<length scores]))"

definition extractive_summarize :: "nltk \<Rightarrow> string \<Rightarrow> int \<Rightarrow> exn + summary_result" where
  "extractive_summarize lib text max_length =
     (case sent_tokenize lib text of
        Inl e \<Rightarrow> Inl e
      | Inr sentences \<Rightarrow>
          if length sentences \<le> 3
          then Inr \<lparr>summary = text, method_name = ''extractive'', model = None,
                    original_length = length text, summary_length = length text,
                    num_points = None\<rparr>
          else
            (case stopwords_english lib of
               Inl e \<Rightarrow> Inl e
             | Inr stop_words \<Rightarrow>
                 (case word_tokenize lib (py_lower text) of
                    Inl e \<Rightarrow> Inl e
                  | Inr tokens \<Rightarrow>
                      let counted = filter (\<lambda>w. py_isalnum w \<and> w \<notin> set stop_words) tokens
                      in (case score_sentences lib (word_frequency counted)
                                 (length sentences) 0 sentences of
                            Inl e \<Rightarrow> Inl e
                          | Inr scores \<Rightarrow>
                              let num_sentences = max 3 (length sentences div 4);
                                  chosen = top_indices scores num_sentences;
                                  joined = py_join '' '' (map (\<lambda>i. sentences ! i) chosen)
                              in Inr \<lparr>summary = joined, method_name = ''extractive'', model = None,
                                       original_length = length text,
                                       summary_length = length joined,
                                       num_points = None\<rparr>))))"




text \<open>
  A stand-in for the installed libraries, used to run the summarizer on a concrete text:
  a sentence ends at every full stop, a word token is a run of non-space characters with
  a final full stop split off, and the stop word list is a short one.  On the sample
  text below, NLTK's tokenizers give the same sentences and words.
\<close>

fun sentences_of :: "string \<Rightarrow> string \<Rightarrow> string list" where
  "sentences_of cur [] = (if py_strip (rev cur) = [] then [] else [py_strip (rev cur)])"
| "sentences_of cur (c # cs) =
     (if c = CHR ''.'' then py_strip (rev (c # cur)) # sentences_of [] cs
      else sentences_of (c # cur) cs)"

definition words_of :: "string \<Rightarrow> string list" where
  "words_of t =
     concat (map (\<lambda>w. if 1 < length w \<and> last w = CHR ''.'' then [butlast w, ''.''] else [w])
                 (py_split t))"

definition sample_nltk :: nltk where
  "sample_nltk =
     \<lparr>sent_tokenize = (\<lambda>t. Inr (sentences_of [] t)),
      word_tokenize = (\<lambda>t. Inr (words_of t)),
      stopwords_english = Inr [''the'', ''of'', ''are'', ''to'', ''and'', ''not'', ''from'']\<rparr>"

definition lecture_text :: string where
  "lecture_text =
     ''Cells are the basic units of all life. Plants use sunlight to make their own food. Energy from food powers every living cell today. Rocks are hard and they are not alive.''"





section \<open>QuizGenerator: generating questions\<close>

















































section \<open>Transcriber and FileHandler\<close>

text \<open>
  \<^verbatim>\<open>Transcriber.transcribe\<close>, lines 36-94: the two checks on the path, the configuration,
  the call of the transcription service and the check of its status.  The environment
  says which paths exist and what the service answers (a transcript, or the exception it
  raises, which the method stores in \<^verbatim>\<open>result_holder\<close> and raises again after the worker
  thread has ended).  The progress callback is absent, and the formatting of the returned
  dictionary (lines 96-138), which rounds times in floating point, is not part of the
  embedding: on success the embedding returns the transcript of the service.
\<close>

record aai_word =
  word_text :: string
  word_start :: int
  word_end :: int






















section \<open>Properties of the StateManager\<close>

lemma load_database_Doc: "load_database s = Some d \<longleftrightarrow> db_path s = Doc d"
  by (simp add: load_database_def split: file_state.splits)

lemma fresh_store_eq:
  "fresh_store = \<lparr>db_path = Doc initial_data, disk = Writable, saves = [initial_data]\<rparr>"
  by (simp add: fresh_store_def ensure_database_def save_database_def)

lemma save_database_saves: "saves (snd (save_database d s)) = d # saves s"
  by (cases "disk s") (simp_all add: save_database_def)

lemma save_database_True:
  "fst (save_database d s) \<Longrightarrow> db_path (snd (save_database d s)) = Doc d"
  by (cases "disk s") (simp_all add: save_database_def)

subsection \<open>Lecture ids\<close>

text \<open>
  As long as the persisted lectures carry the ids \<open>1, \<dots>, n\<close> in this order, a successful
  \<^verbatim>\<open>add_lecture\<close> returns \<open>n + 1\<close> and leaves the ids \<open>1, \<dots>, n + 1\<close>: without deletions
  the ids are unique and increasing.
\<close>

lemma add_lecture_next_id:
  assumes "lecture_ids s = map (\<lambda>i. Some (JNum (of_int (int i)))) [1..<Suc n]"
    and "fst (add_lecture now lecture_data s) = Inr (Some new_id)"
  shows "new_id = int n + 1"
    and "lecture_ids (snd (add_lecture now lecture_data s))
           = map (\<lambda>i. Some (JNum (of_int (int i)))) [1..<Suc (Suc n)]"
proof -
  from assms(2) obtain db where db: "db_path s = Doc db"
    by (cases "db_path s") (simp_all add: add_lecture_def load_database_def)
  with assms(1) have ids: "map (\<lambda>l. l ''id'') (lectures db)
                            = map (\<lambda>i. Some (JNum (of_int (int i)))) [1..<Suc n]"
    by (simp add: lecture_ids_def)
  then have "length (lectures db) = length [1..<Suc n]"
    by (metis length_map)
  then have len: "length (lectures db) = n"
    by simp
  from assms(2) db len show "new_id = int n + 1"
    by (auto simp: add_lecture_def load_database_def save_database_def Let_def
        split: option.splits jvalue.splits disk.splits)
  from assms(2) db len ids
  show "lecture_ids (snd (add_lecture now lecture_data s))
          = map (\<lambda>i. Some (JNum (of_int (int i)))) [1..<Suc (Suc n)]"
    by (auto simp: add_lecture_def load_database_def save_database_def Let_def lecture_ids_def
        split: option.splits jvalue.splits disk.splits)
qed

text \<open>
  C1 (lecture ids are unique and monotonic in every reachable state, also after
  \<^verbatim>\<open>delete_lecture\<close>).  The id of a new lecture is the length of the list plus one, so
  deleting a lecture makes the next id collide.  On a fresh database, adding two
  lectures, deleting the lecture with id 1 and adding a third one leaves two records that
  both carry id 2: the ids are neither unique, nor is the id of the lecture added last
  greater than the id of the lecture added before it.
\<close>

theorem add_lecture_reuses_id_after_delete:
  "lecture_ids
     (run_ops [AddLecture ''2024-01-01T09:00:00'' Map.empty,
               AddLecture ''2024-01-02T09:00:00'' Map.empty,
               DeleteLecture (JNum 1),
               AddLecture ''2024-01-03T09:00:00'' Map.empty] fresh_store)
     = [Some (JNum 2), Some (JNum 2)]"
  by (simp add: fresh_store_eq lecture_ids_def add_lecture_def delete_lecture_def
      load_database_def save_database_def initial_data_def initial_analytics_def Let_def)

subsection \<open>Read, modify, write\<close>










lemma one_lecture_store_eq:
  "one_lecture_store =
     \<lparr>db_path = Doc \<lparr>lectures = [[''duration'' \<mapsto> JNum 90, ''id'' \<mapsto> JNum 1,
                                    ''created_at'' \<mapsto> JStr ''2024-01-01T09:00:00'']],
                      settings = initial_settings,
                      analytics = [''total_lectures'' \<mapsto> 1, ''total_duration'' \<mapsto> 90,
                                   ''total_quizzes'' \<mapsto> 0],
                      quiz_results = None\<rparr>,
      disk = Writable,
      saves = [\<lparr>lectures = [[''duration'' \<mapsto> JNum 90, ''id'' \<mapsto> JNum 1,
                                ''created_at'' \<mapsto> JStr ''2024-01-01T09:00:00'']],
                 settings = initial_settings,
                 analytics = [''total_lectures'' \<mapsto> 1, ''total_duration'' \<mapsto> 90,
                              ''total_quizzes'' \<mapsto> 0],
                 quiz_results = None\<rparr>, initial_data]\<rparr>"
  by (simp add: one_lecture_store_def fresh_store_eq add_lecture_def load_database_def
      save_database_def initial_data_def initial_analytics_def Let_def fun_upd_twist)


subsection \<open>Analytics counters\<close>

lemma add_lecture_counters:
  assumes "fst (add_lecture now lecture_data s) = Inr (Some i)"
  shows "\<exists>n. counter s ''total_lectures'' = Some n \<and>
             counter (snd (add_lecture now lecture_data s)) ''total_lectures'' = Some (n + 1)"
    and "(case lecture_data ''duration'' of
            None \<Rightarrow> counter (snd (add_lecture now lecture_data s)) ''total_duration''
                      = counter s ''total_duration''
          | Some v \<Rightarrow> \<exists>t d. v = JNum d \<and> counter s ''total_duration'' = Some t \<and>
                 counter (snd (add_lecture now lecture_data s)) ''total_duration'' = Some (t + d))"
    and "counter (snd (add_lecture now lecture_data s)) ''total_quizzes''
           = counter s ''total_quizzes''"
  using assms
  by (auto simp: add_lecture_def counter_def load_database_def save_database_def Let_def
      split: file_state.splits option.splits disk.splits jvalue.splits if_splits)

lemma add_quiz_result_counters:
  assumes "fst (add_quiz_result now quiz_result s)"
  shows "counter (snd (add_quiz_result now quiz_result s)) ''total_quizzes'' =
           Some ((case counter s ''total_quizzes'' of None \<Rightarrow> 0 | Some q \<Rightarrow> q) + 1)"
    and "k \<noteq> ''total_quizzes'' \<Longrightarrow>
           counter (snd (add_quiz_result now quiz_result s)) k = counter s k"
  using assms
  by (auto simp: add_quiz_result_def counter_def load_database_def save_database_def Let_def
      split: file_state.splits option.splits disk.splits)

lemma increment_quiz_count_counters:
  assumes "fst (increment_quiz_count s)"
  shows "counter (snd (increment_quiz_count s)) ''total_quizzes'' =
           Some ((case counter s ''total_quizzes'' of None \<Rightarrow> 0 | Some q \<Rightarrow> q) + 1)"
    and "k \<noteq> ''total_quizzes'' \<Longrightarrow> counter (snd (increment_quiz_count s)) k = counter s k"
  using assms
  by (auto simp: increment_quiz_count_def counter_def load_database_def save_database_def
      split: file_state.splits option.splits disk.splits)

lemma delete_lecture_counters:
  assumes "load_database (snd (delete_lecture lecture_id s)) \<noteq> None"
  shows "counter (snd (delete_lecture lecture_id s)) k = counter s k"
  using assms
  by (auto simp: delete_lecture_def counter_def load_database_def save_database_def
      split: file_state.splits option.splits disk.splits if_splits)

text \<open>
  C7.  The counters only move forward.  A successful \<^verbatim>\<open>add_lecture\<close> (one that returns the
  new id) raises \<open>total_lectures\<close> by exactly 1, raises \<open>total_duration\<close> by the lecture's
  duration when the lecture has one and leaves it alone otherwise, and leaves
  \<open>total_quizzes\<close> alone.  A successful \<^verbatim>\<open>add_quiz_result\<close>, and likewise a successful
  \<^verbatim>\<open>increment_quiz_count\<close>, raises \<open>total_quizzes\<close> by exactly 1 (an absent counter counts
  as 0, as \<^verbatim>\<open>.get('total_quizzes', 0)\<close> reads it) and leaves the other two alone.
  \<^verbatim>\<open>delete_lecture\<close> leaves all three counters as they were whenever the file still loads
  after it.
\<close>

theorem analytics_counters_rolling:
  "(fst (add_lecture now lecture_data s) = Inr (Some new_id) \<longrightarrow>
      (\<exists>n. counter s ''total_lectures'' = Some n \<and>
           counter (snd (add_lecture now lecture_data s)) ''total_lectures'' = Some (n + 1)) \<and>
      (case lecture_data ''duration'' of
         None \<Rightarrow> counter (snd (add_lecture now lecture_data s)) ''total_duration''
                   = counter s ''total_duration''
       | Some v \<Rightarrow> \<exists>t d. v = JNum d \<and> counter s ''total_duration'' = Some t \<and>
              counter (snd (add_lecture now lecture_data s)) ''total_duration'' = Some (t + d)) \<and>
      counter (snd (add_lecture now lecture_data s)) ''total_quizzes''
        = counter s ''total_quizzes'')
   \<and> (fst (add_quiz_result now quiz_result s) \<longrightarrow>
        counter (snd (add_quiz_result now quiz_result s)) ''total_quizzes'' =
          Some ((case counter s ''total_quizzes'' of None \<Rightarrow> 0 | Some q \<Rightarrow> q) + 1) \<and>
        counter (snd (add_quiz_result now quiz_result s)) ''total_lectures''
          = counter s ''total_lectures'' \<and>
        counter (snd (add_quiz_result now quiz_result s)) ''total_duration''
          = counter s ''total_duration'')
   \<and> (fst (increment_quiz_count s) \<longrightarrow>
        counter (snd (increment_quiz_count s)) ''total_quizzes'' =
          Some ((case counter s ''total_quizzes'' of None \<Rightarrow> 0 | Some q \<Rightarrow> q) + 1) \<and>
        counter (snd (increment_quiz_count s)) ''total_lectures''
          = counter s ''total_lectures'' \<and>
        counter (snd (increment_quiz_count s)) ''total_duration''
          = counter s ''total_duration'')
   \<and> (load_database (snd (delete_lecture lecture_id s)) \<noteq> None \<longrightarrow>
        counter (snd (delete_lecture lecture_id s)) ''total_lectures''
          = counter s ''total_lectures'' \<and>
        counter (snd (delete_lecture lecture_id s)) ''total_duration''
          = counter s ''total_duration'' \<and>
        counter (snd (delete_lecture lecture_id s)) ''total_quizzes''
          = counter s ''total_quizzes'')"
  by (intro conjI impI)
    (simp_all add: add_lecture_counters add_quiz_result_counters
      increment_quiz_count_counters delete_lecture_counters)

theorem analytics_counters_rolling_witness:
  "fst (add_lecture ''2024-01-02T09:00:00'' [''duration'' \<mapsto> JNum 30] one_lecture_store)
     = Inr (Some 2) \<and>
   counter one_lecture_store ''total_lectures'' = Some 1 \<and>
   counter (snd (add_lecture ''2024-01-02T09:00:00'' [''duration'' \<mapsto> JNum 30] one_lecture_store))
     ''total_lectures'' = Some 2 \<and>
   counter one_lecture_store ''total_duration'' = Some 90 \<and>
   counter (snd (add_lecture ''2024-01-02T09:00:00'' [''duration'' \<mapsto> JNum 30] one_lecture_store))
     ''total_duration'' = Some 120 \<and>
   fst (add_quiz_result ''2024-01-02T09:00:00'' Map.empty one_lecture_store) \<and>
   counter (snd (add_quiz_result ''2024-01-02T09:00:00'' Map.empty one_lecture_store))
     ''total_quizzes'' = Some 1 \<and>
   fst (increment_quiz_count one_lecture_store) \<and>
   counter (snd (increment_quiz_count one_lecture_store)) ''total_quizzes'' = Some 1 \<and>
   load_database (snd (delete_lecture (JNum 1) one_lecture_store)) \<noteq> None \<and>
   counter (snd (delete_lecture (JNum 1) one_lecture_store)) ''total_lectures'' = Some 1 \<and>
   counter (snd (delete_lecture (JNum 1) one_lecture_store)) ''total_duration'' = Some 90"
proof -
  have added:
    "fst (add_lecture ''2024-01-02T09:00:00'' [''duration'' \<mapsto> JNum 30] one_lecture_store)
       = Inr (Some 2)"
    by (simp add: one_lecture_store_eq add_lecture_def load_database_def save_database_def Let_def)
  have graded: "fst (add_quiz_result ''2024-01-02T09:00:00'' Map.empty one_lecture_store)"
    by (simp add: one_lecture_store_eq add_quiz_result_def load_database_def save_database_def
        Let_def)
  have counted: "fst (increment_quiz_count one_lecture_store)"
    by (simp add: one_lecture_store_eq increment_quiz_count_def load_database_def
        save_database_def)
  have deleted: "load_database (snd (delete_lecture (JNum 1) one_lecture_store)) \<noteq> None"
    by (simp add: one_lecture_store_eq delete_lecture_def load_database_def save_database_def)
  have before: "counter one_lecture_store ''total_lectures'' = Some 1"
    "counter one_lecture_store ''total_duration'' = Some 90"
    "counter one_lecture_store ''total_quizzes'' = Some 0"
    by (simp_all add: one_lecture_store_eq counter_def)
  show ?thesis
    using added graded counted deleted before
      analytics_counters_rolling [where s = one_lecture_store
        and now = "''2024-01-02T09:00:00''" and lecture_data = "[''duration'' \<mapsto> JNum 30]"
        and new_id = 2 and quiz_result = Map.empty and lecture_id = "JNum 1"]
    by simp
qed

subsection \<open>Settings\<close>

text \<open>
  C10.  A successful \<^verbatim>\<open>update_settings\<close> changes only the settings object: the document
  loaded before and the document persisted after have the same lectures, the same
  analytics and the same quiz results (present or absent), and every settings key that
  the update does not name keeps its value.
\<close>

theorem update_settings_frame:
  assumes "fst (update_settings new_settings s)"
  shows "\<exists>db db'. load_database s = Some db \<and>
           load_database (snd (update_settings new_settings s)) = Some db' \<and>
           lectures db' = lectures db \<and> analytics db' = analytics db \<and>
           quiz_results db' = quiz_results db \<and>
           (\<forall>k. k \<notin> dom new_settings \<longrightarrow> settings db' k = settings db k)"
  using assms
  by (auto simp: update_settings_def load_database_def save_database_def map_add_def
      split: file_state.splits option.splits disk.splits)

theorem update_settings_frame_witness:
  "fst (update_settings [''language'' \<mapsto> JStr ''es''] one_lecture_store) \<and>
   (\<exists>db db'. load_database one_lecture_store = Some db \<and>
      load_database (snd (update_settings [''language'' \<mapsto> JStr ''es''] one_lecture_store))
        = Some db' \<and>
      lectures db' = lectures db \<and> analytics db' = analytics db \<and>
      quiz_results db' = quiz_results db \<and>
      (\<forall>k. k \<notin> dom [''language'' \<mapsto> JStr ''es''] \<longrightarrow> settings db' k = settings db k))"
proof -
  have configured: "fst (update_settings [''language'' \<mapsto> JStr ''es''] one_lecture_store)"
    by (simp add: one_lecture_store_eq update_settings_def load_database_def save_database_def)
  from update_settings_frame [OF configured] configured show ?thesis
    by blast
qed

section \<open>Properties of grading\<close>






section \<open>Properties of the Summarizer\<close>

lemma score_sentences_length:
  "score_sentences lib freq n i ss = Inr scores \<Longrightarrow> length scores = length ss"
  by (induction ss arbitrary: i scores) (auto split: sum.splits)

lemma top_indices_props:
  assumes "k \<le> length scores"
  shows "length (top_indices scores k) = k"
    and "sorted_wrt (<) (top_indices scores k)"
    and "\<forall>i \<in> set (top_indices scores k). i < length scores"
proof -
  let ?ranked = "sort_key (\<lambda>i. - (scores ! i)) [0..<length scores]"
  show "length (top_indices scores k) = k"
    using assms by (simp add: top_indices_def)
  have "distinct (take k ?ranked)"
    by (rule distinct_take) simp
  then show "sorted_wrt (<) (top_indices scores k)"
    by (simp add: top_indices_def strict_sorted_iff)
  have "set (take k ?ranked) \<subseteq> set ?ranked"
    by (rule set_take_subset)
  then show "\<forall>i \<in> set (top_indices scores k). i < length scores"
    by (auto simp: top_indices_def)
qed

lemma extractive_summarize_result:
  assumes "extractive_summarize lib text max_length = Inr r"
  shows "method_name r = ''extractive''"
    and "\<exists>sentences. sent_tokenize lib text = Inr sentences \<and>
           (if length sentences \<le> 3 then summary r = text
            else \<exists>chosen. length chosen = max 3 (length sentences div 4) \<and>
                   sorted_wrt (<) chosen \<and> (\<forall>i \<in> set chosen. i < length sentences) \<and>
                   summary r = py_join '' '' (map (\<lambda>i. sentences ! i) chosen))"
proof -
  show "method_name r = ''extractive''"
    using assms by (auto simp: extractive_summarize_def Let_def split: sum.splits if_splits)
  from assms obtain sentences where st: "sent_tokenize lib text = Inr sentences"
    by (auto simp: extractive_summarize_def split: sum.splits)
  show "\<exists>sentences. sent_tokenize lib text = Inr sentences \<and>
           (if length sentences \<le> 3 then summary r = text
            else \<exists>chosen. length chosen = max 3 (length sentences div 4) \<and>
                   sorted_wrt (<) chosen \<and> (\<forall>i \<in> set chosen. i < length sentences) \<and>
                   summary r = py_join '' '' (map (\<lambda>i. sentences ! i) chosen))"
  proof (cases "length sentences \<le> 3")
    case True
    with assms st show ?thesis by (auto simp: extractive_summarize_def)
  next
    case False
    with assms st obtain scores freq where
      scores: "score_sentences lib freq (length sentences) 0 sentences = Inr scores" and
      sum: "summary r = py_join '' '' (map (\<lambda>i. sentences ! i)
              (top_indices scores (max 3 (length sentences div 4))))"
      by (auto simp: extractive_summarize_def Let_def split: sum.splits)
    have len: "length scores = length sentences"
      using scores by (rule score_sentences_length)
    with False have k: "max 3 (length sentences div 4) \<le> length scores"
      by simp
    from top_indices_props [OF k] sum len False st show ?thesis
      by auto
  qed
qed



lemma score_sentences_returns:
  assumes "\<forall>s. \<exists>ws. word_tokenize lib s = Inr ws"
  shows "\<exists>scores. score_sentences lib freq n i ss = Inr scores"
proof (induction ss arbitrary: i)
  case Nil
  show ?case by simp
next
  case (Cons s ss)
  from assms obtain ws where "word_tokenize lib (py_lower s) = Inr ws"
    by blast
  moreover from Cons obtain scores where "score_sentences lib freq n (i + 1) ss = Inr scores"
    by blast
  ultimately show ?case by simp
qed

lemma extractive_summarize_returns:
  assumes "sent_tokenize lib text = Inr sentences"
    and "stopwords_english lib = Inr stop_words"
    and "\<forall>s. \<exists>ws. word_tokenize lib s = Inr ws"
  shows "\<exists>r. extractive_summarize lib text max_length = Inr r"
proof -
  from assms(3) obtain tokens where tk: "word_tokenize lib (py_lower text) = Inr tokens"
    by blast
  from assms(3) score_sentences_returns obtain scores where
    "score_sentences lib
       (word_frequency (filter (\<lambda>w. py_isalnum w \<and> w \<notin> set stop_words) tokens))
       (length sentences) 0 sentences = Inr scores"
    by blast
  with assms(1,2) tk show ?thesis
    by (simp add: extractive_summarize_def Let_def)
qed

lemma lecture_text_sentences:
  "sentences_of [] lecture_text =
     [''Cells are the basic units of all life.'',
      ''Plants use sunlight to make their own food.'',
      ''Energy from food powers every living cell today.'',
      ''Rocks are hard and they are not alive.'']"
  by code_simp


text \<open>
  C9.  When the text tokenizes into \<open>n > 3\<close> sentences, every summary that
  \<^verbatim>\<open>_extractive_summarize\<close> returns is exactly \<open>max 3 (n div 4)\<close> sentences of the input,
  taken at strictly increasing positions (so in their original order) and joined by single
  spaces; and it does return one whenever the stop word list and the word tokenizer are
  available.  When the text has at most 3 sentences the summary is the text itself.
\<close>

theorem extractive_summary_selects_sentences:
  assumes "sent_tokenize lib text = Inr sentences"
  shows "(length sentences \<le> 3 \<longrightarrow>
            (\<exists>r. extractive_summarize lib text max_length = Inr r \<and> summary r = text))
       \<and> (3 < length sentences \<longrightarrow>
            (\<forall>r. extractive_summarize lib text max_length = Inr r \<longrightarrow>
               (\<exists>chosen. length chosen = max 3 (length sentences div 4) \<and>
                  sorted_wrt (<) chosen \<and> (\<forall>i \<in> set chosen. i < length sentences) \<and>
                  summary r = py_join '' '' (map (\<lambda>i. sentences ! i) chosen)))
          \<and> ((\<exists>stop_words. stopwords_english lib = Inr stop_words) \<and>
              (\<forall>s. \<exists>ws. word_tokenize lib s = Inr ws) \<longrightarrow>
                (\<exists>r. extractive_summarize lib text max_length = Inr r)))"
proof (intro conjI impI allI)
  assume "length sentences \<le> 3"
  with assms show "\<exists>r. extractive_summarize lib text max_length = Inr r \<and> summary r = text"
    by (simp add: extractive_summarize_def)
next
  fix r
  assume long: "3 < length sentences" and r: "extractive_summarize lib text max_length = Inr r"
  from extractive_summarize_result(2) [OF r] assms long
  show "\<exists>chosen. length chosen = max 3 (length sentences div 4) \<and>
          sorted_wrt (<) chosen \<and> (\<forall>i \<in> set chosen. i < length sentences) \<and>
          summary r = py_join '' '' (map (\<lambda>i. sentences ! i) chosen)"
    by auto
next
  assume "(\<exists>stop_words. stopwords_english lib = Inr stop_words) \<and>
          (\<forall>s. \<exists>ws. word_tokenize lib s = Inr ws)"
  with assms extractive_summarize_returns
  show "\<exists>r. extractive_summarize lib text max_length = Inr r"
    by blast
qed

theorem extractive_summary_selects_sentences_witness:
  "sent_tokenize sample_nltk lecture_text = Inr (sentences_of [] lecture_text) \<and>
   3 < length (sentences_of [] lecture_text) \<and>
   (\<exists>r chosen. extractive_summarize sample_nltk lecture_text 150 = Inr r \<and>
      length chosen = 3 \<and> sorted_wrt (<) chosen \<and>
      summary r = py_join '' '' (map (\<lambda>i. sentences_of [] lecture_text ! i) chosen)) \<and>
   sent_tokenize sample_nltk ''Cells are small.'' = Inr [''Cells are small.''] \<and>
   (\<exists>r. extractive_summarize sample_nltk ''Cells are small.'' 150 = Inr r \<and>
      summary r = ''Cells are small.'')"
proof -
  have tokenized: "sent_tokenize sample_nltk lecture_text = Inr (sentences_of [] lecture_text)"
    by (simp add: sample_nltk_def)
  have four: "length (sentences_of [] lecture_text) = 4"
    by (simp add: lecture_text_sentences)
  have available: "(\<exists>stop_words. stopwords_english sample_nltk = Inr stop_words) \<and>
      (\<forall>s. \<exists>ws. word_tokenize sample_nltk s = Inr ws)"
    by (simp add: sample_nltk_def)
  have short: "sent_tokenize sample_nltk ''Cells are small.'' = Inr [''Cells are small.'']"
    by code_simp
  from extractive_summary_selects_sentences [OF tokenized, of 150] four available
  have "\<exists>r chosen. extractive_summarize sample_nltk lecture_text 150 = Inr r \<and>
      length chosen = 3 \<and> sorted_wrt (<) chosen \<and>
      summary r = py_join '' '' (map (\<lambda>i. sentences_of [] lecture_text ! i) chosen)"
    by (auto simp: four)
  moreover from extractive_summary_selects_sentences [OF short, of 150]
  have "\<exists>r. extractive_summarize sample_nltk ''Cells are small.'' 150 = Inr r \<and>
      summary r = ''Cells are small.''"
    by simp
  ultimately show ?thesis
    using tokenized four short by simp
qed




section \<open>Properties of the quiz generator\<close>






lemma py_slice_to_length_le: "length (py_slice_to k xs) \<le> length xs"
  by (simp add: py_slice_to_def)





















section \<open>Failure handling\<close>










end
